theory Spec2Isabelle
  imports Complex_Main "HOL-Library.Sublist" "HOL-Library.Log_Nat"
begin

section \<open>Python values and exceptions\<close>

text \<open>
  The values that flow through \<^verbatim>\<open>quilt/tools/command.py\<close>: what \<^verbatim>\<open>json.load\<close> and
  \<^verbatim>\<open>response.json()\<close> produce (\<^verbatim>\<open>None\<close>, booleans, numbers, strings, lists, dicts with
  string keys), and the strings the code builds with \<^verbatim>\<open>"..." % v\<close> and
  \<^verbatim>\<open>"...".format(...)\<close>. A formatted string is kept as its template and the arguments in
  the order they are given (\<open>PFormat\<close>): how \<^verbatim>\<open>str()\<close> renders an argument is Python's
  business and differs between Python 2 and 3, both of which the module supports.
  A \<open>PDict\<close> is the parsed dict: a key is looked up with \<open>map_of\<close>.
  A number is held by its value, a rational: a Python integer is any integer, a Python
  float any double (section Python floats).
  \<open>PJsonDumps v\<close> is the text \<^verbatim>\<open>json.dumps(v)\<close>, \<open>PBytes\<close> the bytes of a file.
  Functions keep their names in the source, without the leading underscores
  (\<^verbatim>\<open>_parse_package\<close> is \<open>parse_package\<close>, \<^verbatim>\<open>__init__\<close> is \<open>init\<close>).
\<close>

datatype pyval =
    PNone
  | PBool bool
  | PNum rat
  | PStr string
  | PList "pyval list"
  | PDict "(string \<times> pyval) list"
  | PFormat string "pyval list"
  | PJsonDumps pyval
  | PBytes string

text \<open>
  The exceptions the modelled code raises or lets through. \<open>CommandException\<close> is the
  module's own class and carries its single argument; the others are Python's and the
  libraries' (\<open>ConnectionError\<close> is \<^verbatim>\<open>requests.exceptions.ConnectionError\<close>,
  \<open>StoreException\<close> comes from \<^verbatim>\<open>quilt/tools/store.py\<close>).
\<close>

datatype exn =
    CommandException pyval
  | StoreException pyval
  | ValueError
  | KeyError string
  | TypeError
  | AttributeError
  | IOError
  | AssertionError
  | EOFError
  | ConnectionError pyval

section \<open>Package identifiers\<close>

text \<open>
  \<^verbatim>\<open>name.split('/')\<close>: the pieces between the separators, in order. A string with
  \<open>n\<close> separators has \<open>n + 1\<close> pieces, some of which may be empty; the empty string has
  the single piece \<^verbatim>\<open>''\<close>.
\<close>

fun split :: "char \<Rightarrow> string \<Rightarrow> string list" where
  "split sep [] = [[]]"
| "split sep (c # cs) =
     (if c = sep then [] # split sep cs
      else (case split sep cs of
              [] \<Rightarrow> [[c]]
            | piece # pieces \<Rightarrow> (c # piece) # pieces))"

text \<open>
  \<^verbatim>\<open>
  def _parse_package(name):
      try:
          owner, pkg = name.split('/')
          if not owner or not pkg:
              raise ValueError
      except ValueError:
          raise CommandException("Specify package as owner/package_name.")
      return owner, pkg
  \<close>
  Unpacking into two names raises \<^verbatim>\<open>ValueError\<close> unless the list has exactly two
  elements; both \<^verbatim>\<open>ValueError\<close>s end in the same \<open>CommandException\<close>.
\<close>

definition parse_package :: "string \<Rightarrow> exn + string \<times> string" where
  "parse_package name =
     (case split (CHR ''/'') name of
        [owner, pkg] \<Rightarrow>
          if owner = [] \<or> pkg = []
          then Inl (CommandException (PStr ''Specify package as owner/package_name.''))
          else Inr (owner, pkg)
      | _ \<Rightarrow> Inl (CommandException (PStr ''Specify package as owner/package_name.'')))"


section \<open>Values: subscripting and comparison\<close>

text \<open>
  \<^verbatim>\<open>v[key]\<close> with a string key: a dict answers or raises \<^verbatim>\<open>KeyError\<close>; every other
  value raises \<^verbatim>\<open>TypeError\<close> (a list or a string wants an integer index, the rest
  cannot be subscripted).
\<close>

fun getitem :: "pyval \<Rightarrow> string \<Rightarrow> exn + pyval" where
  "getitem (PDict items) key =
     (case map_of items key of None \<Rightarrow> Inl (KeyError key) | Some v \<Rightarrow> Inr v)"
| "getitem _ key = Inl TypeError"

text \<open>\<^verbatim>\<open>v.get(key)\<close>: only a dict has the method; a missing key gives \<^verbatim>\<open>None\<close>.\<close>

fun dict_get :: "pyval \<Rightarrow> string \<Rightarrow> exn + pyval" where
  "dict_get (PDict items) key =
     (case map_of items key of None \<Rightarrow> Inr PNone | Some v \<Rightarrow> Inr v)"
| "dict_get _ key = Inl AttributeError"

text \<open>
  \<^verbatim>\<open>v < t\<close> for a float \<open>t\<close>, as Python 3 has it: numbers compare by value (an
  integer and a float exactly), a boolean is the integer 0 or 1, anything else raises
  \<^verbatim>\<open>TypeError\<close>.
\<close>

fun num_of :: "pyval \<Rightarrow> rat option" where
  "num_of (PNum x) = Some x"
| "num_of (PBool b) = Some (if b then 1 else 0)"
| "num_of _ = None"

definition py_less :: "pyval \<Rightarrow> rat \<Rightarrow> exn + bool" where
  "py_less v t = (case num_of v of None \<Rightarrow> Inl TypeError | Some x \<Rightarrow> Inr (x < t))"

section \<open>Python floats\<close>

text \<open>
  A Python float is an IEEE double: a number \<open>m * 2 ^ e\<close> whose \<open>m\<close> has at most 53
  bits. It is held here by its value, a rational. \<^verbatim>\<open>a + b\<close> on floats is the exact sum
  rounded to the nearest double, a tie going to the double with the even \<open>m\<close>.
  For a positive \<open>x\<close>, \<open>ilog2 x\<close> is the exponent of its leading bit
  (\<open>2 ^ ilog2 x \<le> x < 2 ^ (ilog2 x + 1)\<close>), \<open>ulp x\<close> the distance between the doubles
  around it. The range of the exponent is not bounded: a sum of a double and 60 never
  leaves it.
\<close>

definition round_half_even :: "rat \<Rightarrow> int" where
  "round_half_even q =
     (let f = \<lfloor>q\<rfloor>; r = q - of_int f
      in if r < 1 / 2 then f else if 1 / 2 < r then f + 1 else if even f then f else f + 1)"

definition ilog2 :: "rat \<Rightarrow> int" where
  "ilog2 x =
     (case quotient_of x of
        (p, q) \<Rightarrow> (let d = bitlen p - bitlen q in if 2 powi d \<le> x then d else d - 1))"

definition ulp :: "rat \<Rightarrow> rat" where
  "ulp x = 2 powi (ilog2 \<bar>x\<bar> - 52)"

definition to_double :: "rat \<Rightarrow> rat" where
  "to_double x = (if x = 0 then 0 else of_int (round_half_even (x / ulp x)) * ulp x)"

definition is_double :: "rat \<Rightarrow> bool" where
  "is_double x = (to_double x = x)"

definition float_add :: "rat \<Rightarrow> rat \<Rightarrow> rat" where
  "float_add a b = to_double (a + b)"

section \<open>The world a command runs in\<close>

text \<open>
  An HTTP exchange. A request is what the code hands to \<^verbatim>\<open>requests\<close>: method, URL,
  headers and \<^verbatim>\<open>data\<close>. A response has its status code, its raw body and what
  \<^verbatim>\<open>response.json()\<close> makes of the body (\<open>None\<close> when it is not JSON: the call raises
  \<^verbatim>\<open>ValueError\<close>). The server either replies or cannot be reached
  (\<^verbatim>\<open>requests.exceptions.ConnectionError\<close>).
\<close>

datatype http_method = GET | POST | PUT | DELETE

record request =
  meth :: http_method
  url :: pyval
  req_headers :: "string \<rightharpoonup> pyval"
  req_data :: pyval

record response =
  status_code :: int
  raw :: string
  json_body :: "pyval option"

datatype reply = Unreachable pyval | Reply response

text \<open>
  The credential file \<^verbatim>\<open>BASE_DIR/auth.json\<close>: its permission bits and what
  \<^verbatim>\<open>json.load\<close> reads from it. \<open>NotJson\<close> is a file whose text is not a JSON document
  (empty, cut short, or anything else): \<^verbatim>\<open>json.load\<close> raises \<^verbatim>\<open>ValueError\<close>.
\<close>

datatype content = Json pyval | NotJson

record stored_file =
  perm :: nat
  content :: content

text \<open>
  The state outside the process: the clock (what \<^verbatim>\<open>time.time()\<close> returns, a float
  of seconds), the environment's
  \<^verbatim>\<open>QUILT_PKG_URL\<close>, the directory \<^verbatim>\<open>BASE_DIR\<close> and the credential file in it, the
  permission bits the system gives a newly created file, the registry (its reply may
  depend on the requests sent before) and the requests sent so far, the local package
  store (a directory per owner, an artifact's bytes per package in it, the path the
  store gives a package, the digest and the compression it uses), and the terminal.
\<close>

record world =
  now :: rat
  QUILT_PKG_URL :: string
  base_dir :: bool
  auth_file :: "stored_file option"
  new_file_perm :: nat
  server :: "request list \<Rightarrow> request \<Rightarrow> reply"
  sent :: "request list"
  store :: "string \<rightharpoonup> (string \<rightharpoonup> string)"
  store_path :: "string \<Rightarrow> string \<Rightarrow> string"
  digest :: "string \<Rightarrow> string"
  gzip :: "string \<Rightarrow> string"
  stdin :: "string list"
  stdout :: "pyval list"
  stderr :: "pyval list"

section \<open>HTTP through requests\<close>

text \<open>
  \<^verbatim>\<open>requests.post\<close>, \<^verbatim>\<open>requests.put\<close>, \<^verbatim>\<open>requests.get\<close> outside a session: the
  request goes out (it is recorded as sent) and the reply comes back as it is, whatever
  its status.
\<close>

definition send :: "request \<Rightarrow> world \<Rightarrow> (exn + response) \<times> world" where
  "send req w =
     (case server w (sent w) req of
        Unreachable why \<Rightarrow> (Inl (ConnectionError why), w\<lparr>sent := sent w @ [req]\<rparr>)
      | Reply resp \<Rightarrow> (Inr resp, w\<lparr>sent := sent w @ [req]\<rparr>))"

text \<open>\<^verbatim>\<open>resp.ok\<close> of requests: false exactly for a client or server error status.\<close>

definition ok :: "response \<Rightarrow> bool" where
  "ok resp = (\<not> (400 \<le> status_code resp \<and> status_code resp < 600))"

definition json :: "response \<Rightarrow> exn + pyval" where
  "json resp = (case json_body resp of None \<Rightarrow> Inl ValueError | Some v \<Rightarrow> Inr v)"

text \<open>
  \<^verbatim>\<open>
  def _handle_response(resp, **kwargs):
      if resp.status_code == requests.codes.unauthorized:
          raise CommandException("Authentication failed. Run `quilt login` again.")
      elif not resp.ok:
          try:
              data = resp.json()
              raise CommandException(data['message'])
          except ValueError:
              raise CommandException("Unexpected failure: error %s" % resp.status_code)
  \<close>
  Only \<^verbatim>\<open>ValueError\<close> is caught: a \<^verbatim>\<open>KeyError\<close> or \<^verbatim>\<open>TypeError\<close> of
  \<^verbatim>\<open>data['message']\<close> leaves the hook as it is.
\<close>

definition handle_response :: "response \<Rightarrow> exn + unit" where
  "handle_response resp =
     (if status_code resp = 401
      then Inl (CommandException (PStr ''Authentication failed. Run `quilt login` again.''))
      else if \<not> ok resp
      then (case json resp of
              Inl ValueError \<Rightarrow>
                Inl (CommandException
                  (PFormat ''Unexpected failure: error %s'' [PNum (of_int (status_code resp))]))
            | Inl e \<Rightarrow> Inl e
            | Inr data \<Rightarrow>
                (case getitem data ''message'' of
                   Inl ValueError \<Rightarrow>
                     Inl (CommandException
                       (PFormat ''Unexpected failure: error %s'' [PNum (of_int (status_code resp))]))
                 | Inl e \<Rightarrow> Inl e
                 | Inr message \<Rightarrow> Inl (CommandException message)))
      else Inr ())"

text \<open>
  A session: its headers; its response hook is always \<open>handle_response\<close>, which runs on
  every response of a request made through the session and whose exception leaves the
  request call.
\<close>

record session =
  headers :: "string \<rightharpoonup> pyval"

definition session_request ::
  "session \<Rightarrow> http_method \<Rightarrow> pyval \<Rightarrow> pyval \<Rightarrow> world \<Rightarrow> (exn + response) \<times> world" where
  "session_request s m u d w =
     (case send \<lparr>meth = m, url = u, req_headers = headers s, req_data = d\<rparr> w of
        (Inl e, w') \<Rightarrow> (Inl e, w')
      | (Inr resp, w') \<Rightarrow>
          (case handle_response resp of
             Inl e \<Rightarrow> (Inl e, w')
           | Inr _ \<Rightarrow> (Inr resp, w')))"

section \<open>Credentials\<close>

text \<open>
  \<^verbatim>\<open>
  def _update_auth(refresh_token):
      response = requests.post("%s/api/token" % QUILT_PKG_URL, data=dict(
          refresh_token=refresh_token
      ))
      if response.status_code != requests.codes.ok:
          raise CommandException("Authentication error: %s" % response.status_code)
      data = response.json()
      error = data.get('error')
      if error is not None:
          raise CommandException("Failed to log in: %s" % error)
      return dict(
          refresh_token=data['refresh_token'],
          access_token=data['access_token'],
          expires_at=data['expires_at']
      )
  \<close>
  The result is the items of the new dict.
\<close>

definition update_auth ::
  "pyval \<Rightarrow> world \<Rightarrow> (exn + (string \<times> pyval) list) \<times> world" where
  "update_auth refresh_token w =
     (case send \<lparr>meth = POST, url = PFormat ''%s/api/token'' [PStr (QUILT_PKG_URL w)],
                 req_headers = Map.empty,
                 req_data = PDict [(''refresh_token'', refresh_token)]\<rparr> w of
        (Inl e, w') \<Rightarrow> (Inl e, w')
      | (Inr resp, w') \<Rightarrow>
          (if status_code resp \<noteq> 200
           then (Inl (CommandException
                   (PFormat ''Authentication error: %s'' [PNum (of_int (status_code resp))])), w')
           else
             (case json resp of
                Inl e \<Rightarrow> (Inl e, w')
              | Inr data \<Rightarrow>
                  (case dict_get data ''error'' of
                     Inl e \<Rightarrow> (Inl e, w')
                   | Inr error \<Rightarrow>
                       if error \<noteq> PNone
                       then (Inl (CommandException (PFormat ''Failed to log in: %s'' [error])), w')
                       else
                         (case getitem data ''refresh_token'' of
                            Inl e \<Rightarrow> (Inl e, w')
                          | Inr new_refresh \<Rightarrow>
                              (case getitem data ''access_token'' of
                                 Inl e \<Rightarrow> (Inl e, w')
                               | Inr new_access \<Rightarrow>
                                   (case getitem data ''expires_at'' of
                                      Inl e \<Rightarrow> (Inl e, w')
                                    | Inr new_expiry \<Rightarrow>
                                        (Inr [(''refresh_token'', new_refresh),
                                              (''access_token'', new_access),
                                              (''expires_at'', new_expiry)], w'))))))))"

text \<open>
  \<^verbatim>\<open>
  def _save_auth(auth):
      if not os.path.exists(BASE_DIR):
          os.makedirs(BASE_DIR)
      file_path = os.path.join(BASE_DIR, AUTH_FILE_NAME)
      with open(file_path, 'w') as fd:
          os.chmod(file_path, stat.S_IRUSR | stat.S_IWUSR)
          json.dump(auth, fd)
  \<close>
  Four steps on the file system, in this order. \<^verbatim>\<open>open(file_path, 'w')\<close> creates the
  file or cuts the existing one to length zero, under its own name: from then until the
  text of \<open>auth\<close> is complete the file holds a proper prefix of the text of a JSON object,
  which is not a JSON document. A process that stops between two steps leaves the state
  the steps before have made.
\<close>

definition makedirs_step :: "world \<Rightarrow> world" where
  "makedirs_step w = (if \<not> base_dir w then w\<lparr>base_dir := True\<rparr> else w)"

definition open_w_step :: "world \<Rightarrow> world" where
  "open_w_step w =
     (case auth_file w of
        None \<Rightarrow> w\<lparr>auth_file := Some \<lparr>perm = new_file_perm w, content = NotJson\<rparr>\<rparr>
      | Some f \<Rightarrow> w\<lparr>auth_file := Some (f\<lparr>content := NotJson\<rparr>)\<rparr>)"

definition chmod_step :: "world \<Rightarrow> world" where
  "chmod_step w = w\<lparr>auth_file := map_option (\<lambda>f. f\<lparr>perm := 256 + 128\<rparr>) (auth_file w)\<rparr>"

definition dump_step :: "(string \<times> pyval) list \<Rightarrow> world \<Rightarrow> world" where
  "dump_step auth w =
     w\<lparr>auth_file := map_option (\<lambda>f. f\<lparr>content := Json (PDict auth)\<rparr>) (auth_file w)\<rparr>"

definition save_auth_steps :: "(string \<times> pyval) list \<Rightarrow> (world \<Rightarrow> world) list" where
  "save_auth_steps auth = [makedirs_step, open_w_step, chmod_step, dump_step auth]"

definition run_steps :: "(world \<Rightarrow> world) list \<Rightarrow> world \<Rightarrow> world" where
  "run_steps steps w = fold (\<lambda>step. step) steps w"

definition save_auth :: "(string \<times> pyval) list \<Rightarrow> world \<Rightarrow> world" where
  "save_auth auth w = run_steps (save_auth_steps auth) w"

text \<open>
  The states a stop in the middle of \<open>save_auth\<close> can leave: one for every prefix of
  the steps, from none of them to all of them.
\<close>

definition save_auth_interrupted :: "(string \<times> pyval) list \<Rightarrow> world \<Rightarrow> world list" where
  "save_auth_interrupted auth w = map (\<lambda>steps. run_steps steps w) (prefixes (save_auth_steps auth))"

text \<open>
  \<^verbatim>\<open>requests.Session()\<close> starts with the library's default headers (the user agent
  also names the library's version). Header names are used in one spelling throughout.
\<close>

definition default_headers :: "string \<rightharpoonup> pyval" where
  "default_headers =
     [''User-Agent'' \<mapsto> PStr ''python-requests'',
      ''Accept-Encoding'' \<mapsto> PStr ''gzip, deflate'',
      ''Accept'' \<mapsto> PStr ''*/*'',
      ''Connection'' \<mapsto> PStr ''keep-alive'']"

text \<open>
  The second half of \<open>create_session\<close>:
  \<^verbatim>\<open>
      session = requests.Session()
      session.hooks.update(dict(response=_handle_response))
      session.headers.update({
          "Content-Type": "application/json",
          "Accept": "application/json",
      })
      if auth is not None:
          session.headers["Authorization"] = "Bearer %s" % auth['access_token']
      return session
  \<close>
\<close>

definition new_session :: "pyval option \<Rightarrow> exn + session" where
  "new_session auth =
     (let hs = default_headers(''Content-Type'' \<mapsto> PStr ''application/json'',
                               ''Accept'' \<mapsto> PStr ''application/json'')
      in case auth of
           None \<Rightarrow> Inr \<lparr>headers = hs\<rparr>
         | Some a \<Rightarrow>
             (case getitem a ''access_token'' of
                Inl e \<Rightarrow> Inl e
              | Inr token \<Rightarrow>
                  Inr \<lparr>headers = hs(''Authorization'' \<mapsto> PFormat ''Bearer %s'' [token])\<rparr>))"

text \<open>
  \<^verbatim>\<open>
  def create_session():
      file_path = os.path.join(BASE_DIR, AUTH_FILE_NAME)
      if os.path.exists(file_path):
          with open(file_path) as fd:
              auth = json.load(fd)
          # If the access token expires within a minute, update it.
          if auth['expires_at'] < time.time() + 60:
              try:
                  auth = _update_auth(auth['refresh_token'])
              except CommandException as ex:
                  raise CommandException(
                      "Failed to update the access token (%s). Run `quilt login` again." % ex
                  )
              _save_auth(auth)
      else:
          auth = None
      ...
  \<close>
  \<^verbatim>\<open>"%s" % ex\<close> formats the exception's argument. \<^verbatim>\<open>time.time() + 60\<close> is a
  sum of floats.
\<close>

definition create_session :: "world \<Rightarrow> (exn + session) \<times> world" where
  "create_session w =
     (case auth_file w of
        None \<Rightarrow> (new_session None, w)
      | Some f \<Rightarrow>
          (case content f of
             NotJson \<Rightarrow> (Inl ValueError, w)
           | Json auth \<Rightarrow>
               (case getitem auth ''expires_at'' of
                  Inl e \<Rightarrow> (Inl e, w)
                | Inr expires_at \<Rightarrow>
                    (case py_less expires_at (float_add (now w) 60) of
                       Inl e \<Rightarrow> (Inl e, w)
                     | Inr False \<Rightarrow> (new_session (Some auth), w)
                     | Inr True \<Rightarrow>
                         (case getitem auth ''refresh_token'' of
                            Inl e \<Rightarrow> (Inl e, w)
                          | Inr refresh_token \<Rightarrow>
                              (case update_auth refresh_token w of
                                 (Inl (CommandException ex), w') \<Rightarrow>
                                   (Inl (CommandException
                                      (PFormat ''Failed to update the access token (%s). Run `quilt login` again.''
                                         [ex])), w')
                               | (Inl e, w') \<Rightarrow> (Inl e, w')
                               | (Inr auth', w') \<Rightarrow>
                                   (new_session (Some (PDict auth')), save_auth auth' w')))))))"

section \<open>The local package store\<close>

text \<open>
  Modelled from the spec: \<^verbatim>\<open>quilt/tools/store.py\<close> and \<^verbatim>\<open>quilt/tools/const.py\<close>
  are not among the sources; \<open>get_store\<close>, the store's \<open>exists\<close>, \<open>get_path\<close>,
  \<open>get_hash\<close>, \<open>tempfile\<close> and \<open>install\<close>, and \<open>LATEST_TAG\<close> follow the spec's
  section 4.2 and glossary. A store handle is the pair of owner and package name.
  Resolving for writing may create the containing directory and is idempotent;
  resolving for reading has no effect.
\<close>

definition LATEST_TAG :: string where
  "LATEST_TAG = ''latest''"

definition get_store :: "string \<Rightarrow> string \<Rightarrow> bool \<Rightarrow> world \<Rightarrow> (string \<times> string) \<times> world" where
  "get_store owner pkg writing w =
     ((owner, pkg),
      if writing \<and> store w owner = None then w\<lparr>store := (store w)(owner \<mapsto> Map.empty)\<rparr> else w)"

definition artifact :: "string \<times> string \<Rightarrow> world \<Rightarrow> string option" where
  "artifact st w = (case store w (fst st) of None \<Rightarrow> None | Some dir \<Rightarrow> dir (snd st))"

definition store_exists :: "string \<times> string \<Rightarrow> world \<Rightarrow> bool" where
  "store_exists st w = (artifact st w \<noteq> None)"

definition store_get_path :: "string \<times> string \<Rightarrow> world \<Rightarrow> exn + string" where
  "store_get_path st w =
     (case artifact st w of
        None \<Rightarrow> Inl (StoreException (PStr ''no artifact''))
      | Some _ \<Rightarrow> Inr (store_path w (fst st) (snd st)))"

definition store_get_hash :: "string \<times> string \<Rightarrow> world \<Rightarrow> exn + string" where
  "store_get_hash st w =
     (case artifact st w of
        None \<Rightarrow> Inl (StoreException (PStr ''no artifact''))
      | Some bytes \<Rightarrow> Inr (digest w bytes))"

text \<open>The compressed copy for upload; the temporary file is gone when the block ends.\<close>

definition store_tempfile :: "string \<times> string \<Rightarrow> world \<Rightarrow> exn + string" where
  "store_tempfile st w =
     (case artifact st w of
        None \<Rightarrow> Inl (StoreException (PStr ''no artifact''))
      | Some bytes \<Rightarrow> Inr (gzip w bytes))"

text \<open>
  Download, digest, compare, and only then move into place. A failed download (no
  connection, or a status outside 200..299) and a digest mismatch leave the store as
  it was.
\<close>

definition store_install ::
  "string \<times> string \<Rightarrow> pyval \<Rightarrow> pyval \<Rightarrow> world \<Rightarrow> (exn + unit) \<times> world" where
  "store_install st remote_url expected_hash w =
     (case send \<lparr>meth = GET, url = remote_url, req_headers = Map.empty, req_data = PNone\<rparr> w of
        (Inl e, w') \<Rightarrow> (Inl e, w')
      | (Inr resp, w') \<Rightarrow>
          if \<not> (200 \<le> status_code resp \<and> status_code resp < 300)
          then (Inl (StoreException (PStr ''download failed'')), w')
          else if PStr (digest w' (raw resp)) \<noteq> expected_hash
          then (Inl (StoreException (PStr ''hash mismatch'')), w')
          else (Inr (),
                w'\<lparr>store := (store w')(fst st \<mapsto>
                   (case store w' (fst st) of None \<Rightarrow> Map.empty | Some dir \<Rightarrow> dir)
                     (snd st \<mapsto> raw resp))\<rparr>))"

section \<open>The terminal\<close>

definition print :: "pyval \<Rightarrow> world \<Rightarrow> world" where
  "print v w = w\<lparr>stdout := stdout w @ [v]\<rparr>"

text \<open>\<^verbatim>\<open>input(prompt)\<close>: shows the prompt, reads a line; at end of input raises \<^verbatim>\<open>EOFError\<close>.\<close>

definition input :: "pyval \<Rightarrow> world \<Rightarrow> (exn + string) \<times> world" where
  "input prompt w =
     (case stdin w of
        [] \<Rightarrow> (Inl EOFError, print prompt w)
      | line # rest \<Rightarrow> (Inr line, (print prompt w)\<lparr>stdin := rest\<rparr>))"

text \<open>
  \<^verbatim>\<open>str.lower()\<close>: the letters A to Z go to a to z. Of the other characters none
  becomes \<open>y\<close>, and they are left as they are.
\<close>

definition lower_char :: "char \<Rightarrow> char" where
  "lower_char c =
     (case map_of (zip ''ABCDEFGHIJKLMNOPQRSTUVWXYZ'' ''abcdefghijklmnopqrstuvwxyz'') c of
        None \<Rightarrow> c
      | Some l \<Rightarrow> l)"

definition lower :: "string \<Rightarrow> string" where
  "lower s = map lower_char s"

section \<open>Commands\<close>

text \<open>
  \<^verbatim>\<open>
  def push(session, package):
      owner, pkg = _parse_package(package)
      store = get_store(owner, pkg)
      if not store.exists():
          raise CommandException("Package {owner}/{pkg} not found.".format(owner=owner, pkg=pkg))
      path = store.get_path()
      pkghash = store.get_hash()
      assert path
      response = session.put(
          "{url}/api/package/{owner}/{pkg}/{hash}".format(
              url=QUILT_PKG_URL, owner=owner, pkg=pkg, hash=pkghash),
          data=json.dumps(dict(description="")))
      dataset = response.json()
      upload_url = dataset['upload_url']
      headers = {'Content-Encoding': 'gzip'}
      with store.tempfile() as temp_file:
          response = requests.put(upload_url, data=temp_file, headers=headers)
          if not response.ok:
              raise CommandException("Upload failed: error %s" % response.status_code)
      response = session.put(
          "{url}/api/tag/{owner}/{pkg}/{tag}".format(
              url=QUILT_PKG_URL, owner=owner, pkg=pkg, tag=LATEST_TAG),
          data=json.dumps(dict(hash=pkghash)))
  \<close>
\<close>

definition push :: "session \<Rightarrow> string \<Rightarrow> world \<Rightarrow> (exn + unit) \<times> world" where
  "push s package w =
     (case parse_package package of
        Inl e \<Rightarrow> (Inl e, w)
      | Inr (owner, pkg) \<Rightarrow>
          (case get_store owner pkg False w of
             (st, w0) \<Rightarrow>
               if \<not> store_exists st w0
               then (Inl (CommandException
                       (PFormat ''Package {owner}/{pkg} not found.'' [PStr owner, PStr pkg])), w0)
               else
                 (case store_get_path st w0 of
                    Inl e \<Rightarrow> (Inl e, w0)
                  | Inr path \<Rightarrow>
                 (case store_get_hash st w0 of
                    Inl e \<Rightarrow> (Inl e, w0)
                  | Inr pkghash \<Rightarrow>
                 if path = [] then (Inl AssertionError, w0)
                 else
                 (case session_request s PUT
                         (PFormat ''{url}/api/package/{owner}/{pkg}/{hash}''
                            [PStr (QUILT_PKG_URL w0), PStr owner, PStr pkg, PStr pkghash])
                         (PJsonDumps (PDict [(''description'', PStr [])])) w0 of
                    (Inl e, w1) \<Rightarrow> (Inl e, w1)
                  | (Inr response, w1) \<Rightarrow>
                 (case json response of
                    Inl e \<Rightarrow> (Inl e, w1)
                  | Inr dataset \<Rightarrow>
                 (case getitem dataset ''upload_url'' of
                    Inl e \<Rightarrow> (Inl e, w1)
                  | Inr upload_url \<Rightarrow>
                 (case store_tempfile st w1 of
                    Inl e \<Rightarrow> (Inl e, w1)
                  | Inr temp_file \<Rightarrow>
                 (case send \<lparr>meth = PUT, url = upload_url,
                             req_headers = [''Content-Encoding'' \<mapsto> PStr ''gzip''],
                             req_data = PBytes temp_file\<rparr> w1 of
                    (Inl e, w2) \<Rightarrow> (Inl e, w2)
                  | (Inr upload, w2) \<Rightarrow>
                 if \<not> ok upload
                 then (Inl (CommandException
                         (PFormat ''Upload failed: error %s'' [PNum (of_int (status_code upload))])), w2)
                 else
                 (case session_request s PUT
                         (PFormat ''{url}/api/tag/{owner}/{pkg}/{tag}''
                            [PStr (QUILT_PKG_URL w2), PStr owner, PStr pkg, PStr LATEST_TAG])
                         (PJsonDumps (PDict [(''hash'', PStr pkghash)])) w2 of
                    (Inl e, w3) \<Rightarrow> (Inl e, w3)
                  | (Inr _, w3) \<Rightarrow> (Inr (), w3)))))))))))"

text \<open>
  The part of \<open>install\<close> after the question:
  \<^verbatim>\<open>
      response = session.get(
          "{url}/api/tag/{owner}/{pkg}/{tag}".format(
              url=QUILT_PKG_URL, owner=owner, pkg=pkg, tag=LATEST_TAG))
      pkghash = response.json()['hash']
      response = session.get(
          "{url}/api/package/{owner}/{pkg}/{hash}".format(
              url=QUILT_PKG_URL, owner=owner, pkg=pkg, hash=pkghash))
      dataset = response.json()
      try:
          store.install(dataset['url'], dataset['hash'])
      except StoreException as ex:
          raise CommandException("Failed to install the package: %s" % ex)
  \<close>
\<close>

definition install_fetch ::
  "session \<Rightarrow> string \<Rightarrow> string \<Rightarrow> string \<times> string \<Rightarrow> world \<Rightarrow> (exn + unit) \<times> world" where
  "install_fetch s owner pkg st w =
     (case session_request s GET
             (PFormat ''{url}/api/tag/{owner}/{pkg}/{tag}''
                [PStr (QUILT_PKG_URL w), PStr owner, PStr pkg, PStr LATEST_TAG]) PNone w of
        (Inl e, w1) \<Rightarrow> (Inl e, w1)
      | (Inr response, w1) \<Rightarrow>
     (case json response of
        Inl e \<Rightarrow> (Inl e, w1)
      | Inr tag \<Rightarrow>
     (case getitem tag ''hash'' of
        Inl e \<Rightarrow> (Inl e, w1)
      | Inr pkghash \<Rightarrow>
     (case session_request s GET
             (PFormat ''{url}/api/package/{owner}/{pkg}/{hash}''
                [PStr (QUILT_PKG_URL w1), PStr owner, PStr pkg, pkghash]) PNone w1 of
        (Inl e, w2) \<Rightarrow> (Inl e, w2)
      | (Inr response2, w2) \<Rightarrow>
     (case json response2 of
        Inl e \<Rightarrow> (Inl e, w2)
      | Inr dataset \<Rightarrow>
     (case getitem dataset ''url'' of
        Inl e \<Rightarrow> (Inl e, w2)
      | Inr remote_url \<Rightarrow>
     (case getitem dataset ''hash'' of
        Inl e \<Rightarrow> (Inl e, w2)
      | Inr expected_hash \<Rightarrow>
     (case store_install st remote_url expected_hash w2 of
        (Inl (StoreException ex), w3) \<Rightarrow>
          (Inl (CommandException (PFormat ''Failed to install the package: %s'' [ex])), w3)
      | (Inl e, w3) \<Rightarrow> (Inl e, w3)
      | (Inr _, w3) \<Rightarrow> (Inr (), w3)))))))))"

text \<open>
  \<^verbatim>\<open>
  def install(session, package):
      owner, pkg = _parse_package(package)
      store = get_store(owner, pkg, mode='w')
      if store.exists():
          print("{owner}/{pkg} already installed.".format(owner=owner, pkg=pkg))
          overwrite = input("Overwrite y/n? ")
          if overwrite.lower() != 'y':
              return
      ...
  \<close>
\<close>

definition install :: "session \<Rightarrow> string \<Rightarrow> world \<Rightarrow> (exn + unit) \<times> world" where
  "install s package w =
     (case parse_package package of
        Inl e \<Rightarrow> (Inl e, w)
      | Inr (owner, pkg) \<Rightarrow>
          (case get_store owner pkg True w of
             (st, w0) \<Rightarrow>
               if store_exists st w0
               then
                 (case input (PStr ''Overwrite y/n? '')
                         (print (PFormat ''{owner}/{pkg} already installed.'' [PStr owner, PStr pkg]) w0) of
                    (Inl e, w1) \<Rightarrow> (Inl e, w1)
                  | (Inr overwrite, w1) \<Rightarrow>
                      if lower overwrite \<noteq> ''y'' then (Inr (), w1)
                      else install_fetch s owner pkg st w1)
               else install_fetch s owner pkg st w0))"

text \<open>
  The end of \<open>main\<close>, after the arguments are parsed into the command function
  \<open>func\<close>, its remaining keyword arguments and \<open>need_session\<close>:
  \<^verbatim>\<open>
      try:
          # Create a session if needed.
          if kwargs.pop('need_session'):
              kwargs['session'] = create_session()
          func(**kwargs)
          return 0
      except CommandException as ex:
          print(ex, file=sys.stderr)
          return 1
      except requests.exceptions.ConnectionError as ex:
          print("Failed to connect: %s" % ex, file=sys.stderr)
  \<close>
  The function ends after the last \<^verbatim>\<open>print\<close>: that branch returns \<^verbatim>\<open>None\<close>. The
  result is \<open>Inr (Some n)\<close> for \<^verbatim>\<open>return n\<close>, \<open>Inr None\<close> for \<^verbatim>\<open>None\<close>, and \<open>Inl e\<close>
  for an exception that neither handler catches.
\<close>

type_synonym command = "session option \<Rightarrow> world \<Rightarrow> (exn + unit) \<times> world"

definition main :: "bool \<Rightarrow> command \<Rightarrow> world \<Rightarrow> (exn + int option) \<times> world" where
  "main need_session func w =
     (case (if need_session
            then (case create_session w of
                    (Inl e, w') \<Rightarrow> (Inl e, w')
                  | (Inr s, w') \<Rightarrow> func (Some s) w')
            else func None w) of
        (Inr _, w') \<Rightarrow> (Inr (Some 0), w')
      | (Inl (CommandException ex), w') \<Rightarrow> (Inr (Some 1), w'\<lparr>stderr := stderr w' @ [ex]\<rparr>)
      | (Inl (ConnectionError ex), w') \<Rightarrow>
          (Inr None, w'\<lparr>stderr := stderr w' @ [PFormat ''Failed to connect: %s'' [ex]]\<rparr>)
      | (Inl e, w') \<Rightarrow> (Inl e, w'))"

text \<open>The session commands as \<open>main\<close> calls them: the session is always there.\<close>

definition with_session :: "(session \<Rightarrow> world \<Rightarrow> (exn + unit) \<times> world) \<Rightarrow> command" where
  "with_session f so w = (case so of None \<Rightarrow> (Inl TypeError, w) | Some s \<Rightarrow> f s w)"

section \<open>A file that shows its read progress\<close>

text \<open>
  \<^verbatim>\<open>quilt/tools/util.py\<close>, class \<open>FileWithReadProgress\<close>. The underlying binary file
  object has a position and its bytes, and is open or closed; every operation on a
  closed file raises \<^verbatim>\<open>ValueError\<close>. The progress bar (\<^verbatim>\<open>tqdm\<close>) has a total, a
  count, and is open or closed.
\<close>

record fileobj =
  fd_closed :: bool
  fd_pos :: nat
  fd_bytes :: string

record tqdm =
  bar_total :: nat
  bar_count :: nat
  bar_closed :: bool

record FileWithReadProgress =
  fd :: fileobj
  need_to_close :: bool
  progress :: tqdm

text \<open>
  \<^verbatim>\<open>fd.seek(offset, whence)\<close>, \<^verbatim>\<open>fd.tell()\<close>, \<^verbatim>\<open>fd.read(size)\<close>, \<^verbatim>\<open>fd.close()\<close>
  of a binary file. A negative size reads to the end. Seeking before the start of the
  file or with an unknown \<open>whence\<close> fails.
\<close>

definition fd_seek :: "int \<Rightarrow> int \<Rightarrow> fileobj \<Rightarrow> exn + fileobj" where
  "fd_seek offset whence f =
     (if fd_closed f then Inl ValueError
      else
        (let base = (if whence = 0 then Some 0
                     else if whence = 1 then Some (int (fd_pos f))
                     else if whence = 2 then Some (int (length (fd_bytes f)))
                     else None)
         in case base of
              None \<Rightarrow> Inl ValueError
            | Some b \<Rightarrow> if b + offset < 0 then Inl IOError else Inr (f\<lparr>fd_pos := nat (b + offset)\<rparr>)))"

definition fd_tell :: "fileobj \<Rightarrow> exn + nat" where
  "fd_tell f = (if fd_closed f then Inl ValueError else Inr (fd_pos f))"

definition fd_read :: "int \<Rightarrow> fileobj \<Rightarrow> exn + string \<times> fileobj" where
  "fd_read nbytes f =
     (if fd_closed f then Inl ValueError
      else
        (let rest = drop (fd_pos f) (fd_bytes f);
             buf = (if nbytes < 0 then rest else take (nat nbytes) rest)
         in Inr (buf, f\<lparr>fd_pos := fd_pos f + length buf\<rparr>)))"

definition fd_close :: "fileobj \<Rightarrow> fileobj" where
  "fd_close f = f\<lparr>fd_closed := True\<rparr>"

text \<open>
  \<^verbatim>\<open>
  def __init__(self, path_or_fd):
      if isinstance(path_or_fd, string_types):
          self._fd = open(path_or_fd, 'rb')
          self._need_to_close = True
      else:
          self._fd = path_or_fd
          self._need_to_close = False
      self._fd.seek(0, 2)
      size = self._fd.tell()
      self._fd.seek(0)
      self._progress = tqdm(total=size, unit='B', unit_scale=True)
  \<close>
  The argument is a path (\<open>Inl\<close>) or a file object (\<open>Inr\<close>); the files that can be
  opened are given by their bytes. Opening a path that is not there raises
  \<^verbatim>\<open>IOError\<close>.
\<close>

definition init :: "(string \<rightharpoonup> string) \<Rightarrow> string + fileobj \<Rightarrow> exn + FileWithReadProgress" where
  "init files path_or_fd =
     (case (case path_or_fd of
              Inl path \<Rightarrow>
                (case files path of
                   None \<Rightarrow> Inl IOError
                 | Some bytes \<Rightarrow> Inr (\<lparr>fd_closed = False, fd_pos = 0, fd_bytes = bytes\<rparr>, True))
            | Inr f \<Rightarrow> Inr (f, False)) of
        Inl e \<Rightarrow> Inl e
      | Inr (f0, need) \<Rightarrow>
          (case fd_seek 0 2 f0 of
             Inl e \<Rightarrow> Inl e
           | Inr f1 \<Rightarrow>
               (case fd_tell f1 of
                  Inl e \<Rightarrow> Inl e
                | Inr nbytes \<Rightarrow>
                    (case fd_seek 0 0 f1 of
                       Inl e \<Rightarrow> Inl e
                     | Inr f2 \<Rightarrow>
                         Inr \<lparr>fd = f2, need_to_close = need,
                              progress = \<lparr>bar_total = nbytes, bar_count = 0, bar_closed = False\<rparr>\<rparr>))))"

text \<open>
  \<^verbatim>\<open>
  def read(self, size=-1):
      buf = self._fd.read(size)
      self._progress.update(len(buf))
      return buf
  def tell(self):
      return self._fd.tell()
  def seek(self, offset, whence=0):
      self._fd.seek(offset, whence)
  def close(self):
      self._progress.close()
      if self._need_to_close:
          self._fd.close()
  def __enter__(self):
      return self
  def __exit__(self, exc_type, value, traceback):
      self.close()
  \<close>
\<close>

definition read :: "int \<Rightarrow> FileWithReadProgress \<Rightarrow> exn + pyval \<times> FileWithReadProgress" where
  "read nbytes self =
     (case fd_read nbytes (fd self) of
        Inl e \<Rightarrow> Inl e
      | Inr (buf, f) \<Rightarrow>
          Inr (PBytes buf,
               self\<lparr>fd := f,
                    progress := (progress self)\<lparr>bar_count := bar_count (progress self) + length buf\<rparr>\<rparr>))"

definition tell :: "FileWithReadProgress \<Rightarrow> exn + pyval \<times> FileWithReadProgress" where
  "tell self =
     (case fd_tell (fd self) of
        Inl e \<Rightarrow> Inl e
      | Inr p \<Rightarrow> Inr (PNum (of_nat p), self))"

definition seek :: "int \<Rightarrow> int \<Rightarrow> FileWithReadProgress \<Rightarrow> exn + pyval \<times> FileWithReadProgress" where
  "seek offset whence self =
     (case fd_seek offset whence (fd self) of
        Inl e \<Rightarrow> Inl e
      | Inr f \<Rightarrow> Inr (PNone, self\<lparr>fd := f\<rparr>))"

definition close :: "FileWithReadProgress \<Rightarrow> FileWithReadProgress" where
  "close self =
     (let self' = self\<lparr>progress := (progress self)\<lparr>bar_closed := True\<rparr>\<rparr>
      in if need_to_close self' then self'\<lparr>fd := fd_close (fd self')\<rparr> else self')"

text \<open>
  What the body of a \<^verbatim>\<open>with FileWithReadProgress(...) as f:\<close> block can do with
  \<open>f\<close>: call its methods, and raise. The body runs until its end or its first
  exception.
\<close>

datatype call = Read int | Tell | Seek int int | Close | Raise exn

fun run_call :: "call \<Rightarrow> FileWithReadProgress \<Rightarrow> exn + pyval \<times> FileWithReadProgress" where
  "run_call (Read nbytes) self = read nbytes self"
| "run_call Tell self = tell self"
| "run_call (Seek offset whence) self = seek offset whence self"
| "run_call Close self = Inr (PNone, close self)"
| "run_call (Raise e) self = Inl e"

fun run_body :: "call list \<Rightarrow> FileWithReadProgress \<Rightarrow> exn option \<times> FileWithReadProgress" where
  "run_body [] self = (None, self)"
| "run_body (c # cs) self =
     (case run_call c self of
        Inl e \<Rightarrow> (Some e, self)
      | Inr (_, self') \<Rightarrow> run_body cs self')"

text \<open>
  The \<^verbatim>\<open>with\<close> statement: construct, enter, run the body, and call \<^verbatim>\<open>__exit__\<close>
  whether the body ended or raised; \<^verbatim>\<open>__exit__\<close> returns \<^verbatim>\<open>None\<close>, so the body's
  exception goes on. When the constructor raises, the block is never entered.
  The result is the constructor's exception, or the body's outcome and the object
  as \<^verbatim>\<open>__exit__\<close> leaves it.
\<close>

definition with_block ::
  "(string \<rightharpoonup> string) \<Rightarrow> string + fileobj \<Rightarrow> call list \<Rightarrow>
     exn + exn option \<times> FileWithReadProgress" where
  "with_block files path_or_fd body =
     (case init files path_or_fd of
        Inl e \<Rightarrow> Inl e
      | Inr self \<Rightarrow>
          (case run_body body self of
             (outcome, self') \<Rightarrow> Inr (outcome, close self')))"

section \<open>A world to run the commands in\<close>

text \<open>
  A machine with no credential file and one installed package, \<open>acme/widget\<close>, whose
  registry cannot be reached. The examples below change it field by field.
\<close>

definition example_world :: world where
  "example_world =
     \<lparr>now = 1000,
      QUILT_PKG_URL = ''https://pkg.quiltdata.com'',
      base_dir = True,
      auth_file = None,
      new_file_perm = 420,
      server = (\<lambda>history req. Unreachable (PStr ''no route to host'')),
      sent = [],
      store = [''acme'' \<mapsto> [''widget'' \<mapsto> ''data'']],
      store_path = (\<lambda>owner pkg. owner @ ''/'' @ pkg),
      digest = (\<lambda>bytes. bytes),
      gzip = (\<lambda>bytes. bytes),
      stdin = [],
      stdout = [],
      stderr = []\<rparr>"

definition stored_auth :: "rat \<Rightarrow> stored_file" where
  "stored_auth expires_at =
     \<lparr>perm = 384,
      content = Json (PDict [(''refresh_token'', PStr ''r1''), (''access_token'', PStr ''a1''),
                             (''expires_at'', PNum expires_at)])\<rparr>"


section \<open>Properties of package identifiers\<close>

lemma split_not_Nil: "split sep s \<noteq> []"
  by (induction s) (auto split: list.splits)

lemma split_no_sep: "sep \<notin> set s \<Longrightarrow> split sep s = [s]"
  by (induction s) auto

lemma split_append_sep:
  "sep \<notin> set xs \<Longrightarrow> split sep (xs @ sep # ys) = xs # split sep ys"
  by (induction xs) auto

lemma split_pieces_no_sep: "p \<in> set (split sep s) \<Longrightarrow> sep \<notin> set p"
proof (induction s arbitrary: p)
  case Nil
  then show ?case by simp
next
  case (Cons c cs)
  show ?case
  proof (cases "c = sep")
    case True
    with Cons show ?thesis by auto
  next
    case False
    obtain q qs where q: "split sep cs = q # qs"
      using split_not_Nil [of sep cs] by (cases "split sep cs") auto
    with False Cons.prems have "p = c # q \<or> p \<in> set qs" by auto
    then show ?thesis
    proof
      assume "p = c # q"
      moreover have "sep \<notin> set q" using Cons.IH [of q] q by simp
      ultimately show ?thesis using False by auto
    next
      assume "p \<in> set qs"
      then show ?thesis using Cons.IH [of p] q by simp
    qed
  qed
qed

lemma split_two_join: "split sep s = [a, b] \<Longrightarrow> s = a @ sep # b"
proof (induction s arbitrary: a)
  case Nil
  then show ?case by simp
next
  case (Cons c cs)
  show ?case
  proof (cases "c = sep")
    case True
    with Cons.prems have a: "a = []" and b: "split sep cs = [b]" by auto
    have "sep \<notin> set b" using split_pieces_no_sep [of b sep cs] b by simp
    have "cs = b"
    proof (rule ccontr)
      assume "cs \<noteq> b"
      show False
      proof (cases "sep \<in> set cs")
        case False
        then show False using split_no_sep [of sep cs] b \<open>cs \<noteq> b\<close> by simp
      next
        case True
        then obtain us vs where "cs = us @ sep # vs" "sep \<notin> set us"
          by (meson split_list_first)
        then have "split sep cs = us # split sep vs" by (simp add: split_append_sep)
        with b show False using split_not_Nil [of sep vs] by simp
      qed
    qed
    with a True show ?thesis by simp
  next
    case False
    obtain q qs where q: "split sep cs = q # qs"
      using split_not_Nil [of sep cs] by (cases "split sep cs") auto
    with False Cons.prems have "a = c # q" "qs = [b]" by auto
    with q have "cs = q @ sep # b" using Cons.IH [of q] by simp
    with \<open>a = c # q\<close> show ?thesis by simp
  qed
qed

text \<open>
  C1. A string \<open>owner/pkg\<close> with exactly one \<open>/\<close> and both halves non-empty parses to
  \<open>(owner, pkg)\<close>; whatever parses, re-joined with \<open>/\<close>, is the string that was parsed;
  and every string that is not of that form fails with the \<open>CommandException\<close> that asks
  for \<open>owner/package_name\<close> (the module's only exception class; the spec's ParseError).
\<close>

theorem parse_package_roundtrip:
  "(owner \<noteq> [] \<and> pkg \<noteq> [] \<and> CHR ''/'' \<notin> set owner \<and> CHR ''/'' \<notin> set pkg \<longrightarrow>
      parse_package (owner @ ''/'' @ pkg) = Inr (owner, pkg)) \<and>
   (parse_package name = Inr (owner, pkg) \<longrightarrow> owner @ ''/'' @ pkg = name) \<and>
   ((\<nexists>a b. a \<noteq> [] \<and> b \<noteq> [] \<and> CHR ''/'' \<notin> set a \<and> CHR ''/'' \<notin> set b \<and> name = a @ ''/'' @ b) \<longrightarrow>
      parse_package name = Inl (CommandException (PStr ''Specify package as owner/package_name.'')))"
proof (intro conjI impI)
  assume "owner \<noteq> [] \<and> pkg \<noteq> [] \<and> CHR ''/'' \<notin> set owner \<and> CHR ''/'' \<notin> set pkg"
  then show "parse_package (owner @ ''/'' @ pkg) = Inr (owner, pkg)"
    by (simp add: parse_package_def split_append_sep split_no_sep)
next
  assume "parse_package name = Inr (owner, pkg)"
  then have "split (CHR ''/'') name = [owner, pkg]"
    by (auto simp: parse_package_def split: list.splits if_splits)
  then show "owner @ ''/'' @ pkg = name"
    using split_two_join by fastforce
next
  assume none: "\<nexists>a b. a \<noteq> [] \<and> b \<noteq> [] \<and> CHR ''/'' \<notin> set a \<and> CHR ''/'' \<notin> set b \<and> name = a @ ''/'' @ b"
  show "parse_package name = Inl (CommandException (PStr ''Specify package as owner/package_name.''))"
  proof (rule ccontr)
    assume "parse_package name \<noteq> Inl (CommandException (PStr ''Specify package as owner/package_name.''))"
    then obtain a b where ab: "split (CHR ''/'') name = [a, b]" "a \<noteq> []" "b \<noteq> []"
      by (auto simp: parse_package_def split: list.splits if_splits)
    then have "name = a @ ''/'' @ b" using split_two_join by fastforce
    moreover have "CHR ''/'' \<notin> set a" "CHR ''/'' \<notin> set b"
      using split_pieces_no_sep [of a "CHR ''/''" name]
        split_pieces_no_sep [of b "CHR ''/''" name] ab by simp_all
    ultimately show False using none ab by blast
  qed
qed

theorem parse_package_roundtrip_witness:
  "parse_package ''acme/widget'' = Inr (''acme'', ''widget'') \<and>
   ''acme'' @ ''/'' @ ''widget'' = ''acme/widget'' \<and>
   parse_package ''acme/'' = Inl (CommandException (PStr ''Specify package as owner/package_name.'')) \<and>
   parse_package ''a/b/c'' = Inl (CommandException (PStr ''Specify package as owner/package_name.'')) \<and>
   parse_package ''widget'' = Inl (CommandException (PStr ''Specify package as owner/package_name.''))"
  using parse_package_roundtrip [of "''acme''" "''widget''" "''acme/widget''"]
  by (simp add: parse_package_def)

section \<open>Properties of the response hook\<close>

text \<open>
  A status of 304 is neither 2xx nor 401, and the hook raises nothing: \<^verbatim>\<open>resp.ok\<close> is
  false only from 400 on.
\<close>

theorem handle_response_redirect_counterexample:
  "\<not> (200 \<le> status_code \<lparr>status_code = 304, raw = [], json_body = None\<rparr> \<and>
       status_code \<lparr>status_code = 304, raw = [], json_body = None\<rparr> < 300) \<and>
   status_code \<lparr>status_code = 304, raw = [], json_body = None\<rparr> \<noteq> 401 \<and>
   handle_response \<lparr>status_code = 304, raw = [], json_body = None\<rparr> = Inr ()"
  by (simp add: handle_response_def ok_def)

text \<open>
  An error status whose body is a JSON object without a \<open>message\<close> entry leaves the hook
  with the \<^verbatim>\<open>KeyError\<close> of the lookup, which the \<^verbatim>\<open>except ValueError\<close> does not catch.
\<close>

lemma handle_response_no_message:
  "handle_response \<lparr>status_code = 500, raw = ''{}'', json_body = Some (PDict [])\<rparr> =
     Inl (KeyError ''message'')"
  by (simp add: handle_response_def ok_def json_def)

text \<open>
  C4, as the code has it. A 401 becomes the \<open>CommandException\<close> that asks to log in
  again. Any other status from 400 to 599 becomes a \<open>CommandException\<close> that carries the
  body's \<open>message\<close> entry when the body is a JSON object that has one, and the generic
  message with the status code when the body is not JSON. A status below 400 (every 2xx
  among them) or from 600 on raises nothing.
\<close>

theorem handle_response_cases:
  "(status_code resp = 401 \<longrightarrow>
      handle_response resp =
        Inl (CommandException (PStr ''Authentication failed. Run `quilt login` again.''))) \<and>
   (status_code resp \<noteq> 401 \<and> 400 \<le> status_code resp \<and> status_code resp < 600 \<and>
    json_body resp = Some (PDict items) \<and> map_of items ''message'' = Some message \<longrightarrow>
      handle_response resp = Inl (CommandException message)) \<and>
   (status_code resp \<noteq> 401 \<and> 400 \<le> status_code resp \<and> status_code resp < 600 \<and>
    json_body resp = None \<longrightarrow>
      handle_response resp =
        Inl (CommandException
          (PFormat ''Unexpected failure: error %s'' [PNum (of_int (status_code resp))]))) \<and>
   (status_code resp < 400 \<or> 600 \<le> status_code resp \<longrightarrow> handle_response resp = Inr ())"
  by (auto simp: handle_response_def ok_def json_def)

theorem handle_response_cases_witness:
  "handle_response \<lparr>status_code = 401, raw = [], json_body = None\<rparr> =
     Inl (CommandException (PStr ''Authentication failed. Run `quilt login` again.'')) \<and>
   handle_response \<lparr>status_code = 404, raw = [],
       json_body = Some (PDict [(''message'', PStr ''no such package'')])\<rparr> =
     Inl (CommandException (PStr ''no such package'')) \<and>
   handle_response \<lparr>status_code = 502, raw = ''<html>'', json_body = None\<rparr> =
     Inl (CommandException (PFormat ''Unexpected failure: error %s'' [PNum 502])) \<and>
   handle_response \<lparr>status_code = 200, raw = ''{}'', json_body = Some (PDict [])\<rparr> = Inr ()"
  using handle_response_cases [of "\<lparr>status_code = 401, raw = [], json_body = None\<rparr>" "[]" PNone]
    handle_response_cases [of "\<lparr>status_code = 404, raw = [],
       json_body = Some (PDict [(''message'', PStr ''no such package'')])\<rparr>"
       "[(''message'', PStr ''no such package'')]" "PStr ''no such package''"]
    handle_response_cases [of "\<lparr>status_code = 502, raw = ''<html>'', json_body = None\<rparr>" "[]" PNone]
    handle_response_cases [of "\<lparr>status_code = 200, raw = ''{}'', json_body = Some (PDict [])\<rparr>" "[]" PNone]
  by simp

section \<open>Properties of the credential file\<close>

lemma save_auth_interrupted_states:
  "save_auth_interrupted auth w =
     [w, makedirs_step w, open_w_step (makedirs_step w),
      chmod_step (open_w_step (makedirs_step w)),
      dump_step auth (chmod_step (open_w_step (makedirs_step w)))]"
  by (simp add: save_auth_interrupted_def save_auth_steps_def run_steps_def)

lemma save_auth_result:
  "auth_file (save_auth auth w) = Some \<lparr>perm = 384, content = Json (PDict auth)\<rparr>"
  by (simp add: save_auth_def run_steps_def save_auth_steps_def makedirs_step_def
      open_w_step_def chmod_step_def dump_step_def split: option.splits)


text \<open>
  Replacing a stored record: of the five states a stop can leave, the third and the
  fourth hold a file that is neither the previous record nor the new one. The file is
  cut to length zero under its own name before the new text is written.
\<close>

theorem save_auth_not_atomic_counterexample:
  "map (\<lambda>w. map_option content (auth_file w))
     (save_auth_interrupted
        [(''refresh_token'', PStr ''r2''), (''access_token'', PStr ''a2''), (''expires_at'', PNum 5000)]
        (example_world\<lparr>auth_file := Some (stored_auth 1030)\<rparr>)) =
     [Some (content (stored_auth 1030)), Some (content (stored_auth 1030)),
      Some NotJson, Some NotJson,
      Some (Json (PDict [(''refresh_token'', PStr ''r2''), (''access_token'', PStr ''a2''),
                         (''expires_at'', PNum 5000)]))] \<and>
   NotJson \<noteq> content (stored_auth 1030) \<and>
   NotJson \<noteq> Json (PDict [(''refresh_token'', PStr ''r2''), (''access_token'', PStr ''a2''),
                             (''expires_at'', PNum 5000)])"
  by (simp add: save_auth_interrupted_states example_world_def stored_auth_def makedirs_step_def
      open_w_step_def chmod_step_def dump_step_def)

text \<open>
  C5, as the code has it. A write that completes leaves exactly the new record, readable
  and writable by the owner only. A write that is stopped leaves a file whose content is
  the previous one, or the new record, or no JSON document at all: whatever record can
  be read from it is the previous one or the new one, never a mixture.
\<close>

theorem save_auth_in_place:
  "auth_file (save_auth auth w) = Some \<lparr>perm = 384, content = Json (PDict auth)\<rparr> \<and>
   (\<forall>w' \<in> set (save_auth_interrupted auth w).
      map_option content (auth_file w') = map_option content (auth_file w) \<or>
      map_option content (auth_file w') = Some NotJson \<or>
      map_option content (auth_file w') = Some (Json (PDict auth)))"
  by (auto simp: save_auth_result save_auth_interrupted_states makedirs_step_def
      open_w_step_def chmod_step_def dump_step_def split: option.splits)

theorem save_auth_in_place_witness:
  "open_w_step (makedirs_step (example_world\<lparr>auth_file := Some (stored_auth 1030)\<rparr>))
     \<in> set (save_auth_interrupted [(''access_token'', PStr ''a2'')]
              (example_world\<lparr>auth_file := Some (stored_auth 1030)\<rparr>)) \<and>
   map_option content
     (auth_file (open_w_step (makedirs_step (example_world\<lparr>auth_file := Some (stored_auth 1030)\<rparr>))))
     = Some NotJson \<and>
   auth_file (save_auth [(''access_token'', PStr ''a2'')]
                (example_world\<lparr>auth_file := Some (stored_auth 1030)\<rparr>)) =
     Some \<lparr>perm = 384, content = Json (PDict [(''access_token'', PStr ''a2'')])\<rparr>"
  using save_auth_in_place [of "[(''access_token'', PStr ''a2'')]"
      "example_world\<lparr>auth_file := Some (stored_auth 1030)\<rparr>"]
  by (simp add: save_auth_interrupted_states example_world_def stored_auth_def makedirs_step_def
      open_w_step_def)

section \<open>Properties of float rounding\<close>

lemma bitlen_powi_bounds:
  assumes "0 < p"
  shows "(2::rat) powi (bitlen p - 1) \<le> of_int p \<and> of_int p < (2::rat) powi bitlen p"
proof -
  have b: "2 ^ nat (bitlen p - 1) \<le> p \<and> p < 2 ^ nat (bitlen p)"
    using bitlen_bounds [OF assms] .
  have ge1: "1 \<le> bitlen p"
    using assms by (auto simp: bitlen_alt_def)
  have "(2::rat) powi (bitlen p - 1) = of_int (2 ^ nat (bitlen p - 1))"
    using ge1 by (simp add: power_int_def)
  moreover have "(2::rat) powi bitlen p = of_int (2 ^ nat (bitlen p))"
    using ge1 by (simp add: power_int_def)
  ultimately show ?thesis
    using b by (metis of_int_le_iff of_int_less_iff)
qed

lemma ilog2_bounds:
  assumes "0 < x"
  shows "2 powi ilog2 x \<le> x \<and> x < 2 powi (ilog2 x + 1)"
proof -
  obtain p q where pq: "quotient_of x = (p, q)" by (cases "quotient_of x")
  have q: "0 < q" using quotient_of_denom_pos [OF pq] .
  have x: "x = of_int p / of_int q" using quotient_of_div [OF pq] .
  have p: "0 < p" using assms q x by (simp add: zero_less_divide_iff)
  let ?d = "bitlen p - bitlen q"
  have P: "(2::rat) powi (bitlen p - 1) \<le> of_int p" "of_int p < (2::rat) powi bitlen p"
    using bitlen_powi_bounds [OF p] by simp_all
  have Q: "(2::rat) powi (bitlen q - 1) \<le> of_int q" "of_int q < (2::rat) powi bitlen q"
    using bitlen_powi_bounds [OF q] by simp_all
  have qpos: "(0::rat) < of_int q" using q by simp
  have lower: "2 powi (?d - 1) < x"
  proof -
    have "(2::rat) powi (?d - 1) = 2 powi (bitlen p - 1) / 2 powi bitlen q"
      by (simp add: power_int_diff)
    also have "\<dots> \<le> of_int p / 2 powi bitlen q"
      using P(1) by (simp add: divide_right_mono)
    also have "\<dots> < of_int p / of_int q"
      using Q(2) qpos p by (simp add: divide_strict_left_mono)
    finally show ?thesis using x by simp
  qed
  have upper: "x < 2 powi (?d + 1)"
  proof -
    have "x = of_int p / of_int q" by (rule x)
    also have "\<dots> < 2 powi bitlen p / of_int q"
      using P(2) qpos by (simp add: divide_strict_right_mono)
    also have "\<dots> \<le> 2 powi bitlen p / 2 powi (bitlen q - 1)"
      using Q(1) by (intro frac_le) simp_all
    also have "\<dots> = 2 powi (?d + 1)"
      by (simp add: power_int_diff power_int_add)
    finally show ?thesis .
  qed
  show ?thesis
  proof (cases "2 powi ?d \<le> x")
    case True
    then have "ilog2 x = ?d" by (simp add: ilog2_def pq)
    with True upper show ?thesis by simp
  next
    case False
    then have "ilog2 x = ?d - 1" by (simp add: ilog2_def pq)
    with False lower show ?thesis by simp
  qed
qed

lemma powi2_less_imp_less:
  assumes "(2::rat) powi a < 2 powi b"
  shows "a < b"
proof (rule ccontr)
  assume "\<not> a < b"
  then have "(2::rat) powi b \<le> 2 powi a"
    by (intro power_int_increasing) simp_all
  with assms show False by simp
qed

lemma ilog2_unique:
  assumes "2 powi k \<le> x" and "x < 2 powi (k + 1)"
  shows "ilog2 x = k"
proof -
  have "(0::rat) < 2 powi k" by simp
  then have "0 < x" using assms(1) by (rule less_le_trans)
  then have b: "2 powi ilog2 x \<le> x" "x < 2 powi (ilog2 x + 1)"
    using ilog2_bounds by simp_all
  have "(2::rat) powi k < 2 powi (ilog2 x + 1)" using assms(1) b(2) by simp
  then have "k < ilog2 x + 1" by (rule powi2_less_imp_less)
  moreover have "(2::rat) powi ilog2 x < 2 powi (k + 1)" using assms(2) b(1) by simp
  then have "ilog2 x < k + 1" by (rule powi2_less_imp_less)
  ultimately show ?thesis by simp
qed

lemma ilog2_mono:
  assumes "0 < x" and "x \<le> y"
  shows "ilog2 x \<le> ilog2 y"
proof -
  have "0 < y" using assms by simp
  have "(2::rat) powi ilog2 x \<le> x" using ilog2_bounds [OF assms(1)] by simp
  also have "\<dots> \<le> y" by (rule assms(2))
  also have "\<dots> < 2 powi (ilog2 y + 1)" using ilog2_bounds [OF \<open>0 < y\<close>] by simp
  finally have "ilog2 x < ilog2 y + 1" by (rule powi2_less_imp_less)
  then show ?thesis by simp
qed

lemma round_half_even_of_int: "round_half_even (of_int m) = m"
  by (simp add: round_half_even_def)

lemma round_half_even_upper: "round_half_even q \<le> \<lfloor>q\<rfloor> + 1"
  by (simp add: round_half_even_def Let_def)

lemma round_half_even_lower: "\<lfloor>q\<rfloor> \<le> round_half_even q"
  by (simp add: round_half_even_def Let_def)

lemma round_half_even_le:
  assumes "q \<le> of_int m"
  shows "round_half_even q \<le> m"
proof (cases "\<exists>n. q = of_int n")
  case True
  then obtain n where n: "q = of_int n" by blast
  with assms have "n \<le> m" by simp
  then show ?thesis by (simp add: n round_half_even_of_int)
next
  case False
  then have "q \<noteq> of_int m" by blast
  with assms have "q < of_int m" by simp
  then have "\<lfloor>q\<rfloor> < m" by (simp add: floor_less_iff)
  then show ?thesis using round_half_even_upper [of q] by simp
qed

lemma round_half_even_ge:
  assumes "of_int m \<le> q"
  shows "m \<le> round_half_even q"
proof -
  have "m \<le> \<lfloor>q\<rfloor>" using assms by (simp add: le_floor_iff)
  then show ?thesis using round_half_even_lower [of q] by simp
qed

lemma round_half_even_minus: "round_half_even (- q) = - round_half_even q"
proof (cases "\<exists>n. q = of_int n")
  case True
  then obtain n where n: "q = of_int n" by blast
  have "round_half_even (of_int (- n)) = - n" by (rule round_half_even_of_int)
  then show ?thesis by (simp add: n round_half_even_of_int)
next
  case False
  then have nf: "q \<noteq> of_int \<lfloor>q\<rfloor>" by blast
  then have c: "\<lfloor>- q\<rfloor> = - \<lfloor>q\<rfloor> - 1"
    by (simp add: floor_minus ceiling_altdef)
  have ne: "q - of_int \<lfloor>q\<rfloor> \<noteq> 0" using nf by simp
  show ?thesis
    using ne by (simp add: round_half_even_def Let_def c)
qed

lemma scaled_round_le:
  assumes "0 < u" and "d = of_int n * u" and "x \<le> d"
  shows "of_int (round_half_even (x / u)) * u \<le> d"
proof -
  have "x / u \<le> d / u" using assms(1,3) by (simp add: divide_right_mono)
  also have "d / u = of_int n" using assms(1,2) by simp
  finally have "round_half_even (x / u) \<le> n" by (rule round_half_even_le)
  then have "(of_int (round_half_even (x / u)) :: rat) \<le> of_int n" by (simp only: of_int_le_iff)
  then have "of_int (round_half_even (x / u)) * u \<le> of_int n * u"
    using assms(1) by (simp add: mult_right_mono)
  then show ?thesis using assms(2) by simp
qed

lemma scaled_round_ge:
  assumes "0 < u" and "d = of_int n * u" and "d \<le> x"
  shows "d \<le> of_int (round_half_even (x / u)) * u"
proof -
  have "d / u \<le> x / u" using assms(1,3) by (simp add: divide_right_mono)
  moreover have "d / u = of_int n" using assms(1,2) by simp
  ultimately have "n \<le> round_half_even (x / u)" by (simp add: round_half_even_ge)
  then have "(of_int n :: rat) \<le> of_int (round_half_even (x / u))" by (simp only: of_int_le_iff)
  then have "of_int n * u \<le> of_int (round_half_even (x / u)) * u"
    using assms(1) by (simp add: mult_right_mono)
  then show ?thesis using assms(2) by simp
qed

lemma powi2_multiple:
  assumes "j \<le> k"
  shows "\<exists>n. (2::rat) powi k = of_int n * 2 powi j"
proof -
  have "(2::rat) powi k = 2 powi (k - j) * 2 powi j"
    by (simp flip: power_int_add)
  also have "(2::rat) powi (k - j) = of_int (2 ^ nat (k - j))"
    using assms by (simp add: power_int_def)
  finally show ?thesis by blast
qed

lemma to_double_pos_eq:
  assumes "0 < x"
  shows "to_double x = of_int (round_half_even (x / 2 powi (ilog2 x - 52))) * 2 powi (ilog2 x - 52)"
  using assms by (simp add: to_double_def ulp_def)

lemma to_double_ge_powi:
  assumes "0 < x"
  shows "2 powi ilog2 x \<le> to_double x"
proof -
  obtain n where n: "(2::rat) powi ilog2 x = of_int n * 2 powi (ilog2 x - 52)"
    using powi2_multiple [of "ilog2 x - 52" "ilog2 x"] by auto
  have b: "2 powi ilog2 x \<le> x" using ilog2_bounds [OF assms] by simp
  have u: "(0::rat) < 2 powi (ilog2 x - 52)" by simp
  have "(2::rat) powi ilog2 x \<le>
      of_int (round_half_even (x / 2 powi (ilog2 x - 52))) * 2 powi (ilog2 x - 52)"
    by (rule scaled_round_ge [OF u n b])
  then show ?thesis using to_double_pos_eq [OF assms] by simp
qed

lemma to_double_pos:
  assumes "0 < x"
  shows "0 < to_double x"
proof -
  have "(0::rat) < 2 powi ilog2 x" by simp
  then show ?thesis using to_double_ge_powi [OF assms] by (rule less_le_trans)
qed

text \<open>Rounding does not pass a double above.\<close>

lemma to_double_le_double:
  assumes "0 < x" and "x \<le> d" and "to_double d = d"
  shows "to_double x \<le> d"
proof -
  have dpos: "0 < d" using assms by simp
  have k: "ilog2 x - 52 \<le> ilog2 d - 52" using ilog2_mono [OF assms(1,2)] by simp
  obtain n where n: "(2::rat) powi (ilog2 d - 52) = of_int n * 2 powi (ilog2 x - 52)"
    using powi2_multiple [OF k] by auto
  have "d = of_int (round_half_even (d / 2 powi (ilog2 d - 52))) * 2 powi (ilog2 d - 52)"
    using assms(3) to_double_pos_eq [OF dpos] by simp
  then have "d = of_int (round_half_even (d / 2 powi (ilog2 d - 52)) * n) * 2 powi (ilog2 x - 52)"
    by (subst (asm) n) simp
  then have "of_int (round_half_even (x / 2 powi (ilog2 x - 52))) * 2 powi (ilog2 x - 52) \<le> d"
    using assms(2) by (rule scaled_round_le [rotated]) simp
  then show ?thesis using to_double_pos_eq [OF assms(1)] by simp
qed

text \<open>Rounding does not pass a double below.\<close>

lemma to_double_ge_double:
  assumes "0 < d" and "d \<le> x" and "to_double d = d"
  shows "d \<le> to_double x"
proof -
  have xpos: "0 < x" using assms by simp
  have k: "ilog2 d \<le> ilog2 x" using ilog2_mono [OF assms(1,2)] .
  show ?thesis
  proof (cases "ilog2 d = ilog2 x")
    case True
    have "d = of_int (round_half_even (d / 2 powi (ilog2 d - 52))) * 2 powi (ilog2 x - 52)"
      using assms(3) to_double_pos_eq [OF assms(1)] True by simp
    then have "d \<le> of_int (round_half_even (x / 2 powi (ilog2 x - 52))) * 2 powi (ilog2 x - 52)"
      using assms(2) by (rule scaled_round_ge [rotated]) simp
    then show ?thesis using to_double_pos_eq [OF xpos] by simp
  next
    case False
    with k have lt: "ilog2 d + 1 \<le> ilog2 x" by simp
    have "d < 2 powi (ilog2 d + 1)" using ilog2_bounds [OF assms(1)] by simp
    also have "\<dots> \<le> 2 powi ilog2 x" using lt by (intro power_int_increasing) simp_all
    also have "\<dots> \<le> to_double x" by (rule to_double_ge_powi [OF xpos])
    finally show ?thesis by simp
  qed
qed

lemma to_double_minus: "to_double (- x) = - to_double x"
  by (simp add: to_double_def ulp_def round_half_even_minus)

lemma to_double_below:
  assumes "x \<le> d" and "to_double d = d"
  shows "to_double x \<le> d"
proof -
  consider "0 < x" | "x = 0" | "x < 0" "0 \<le> d" | "x < 0" "d < 0" by linarith
  then show ?thesis
  proof cases
    case 1
    then show ?thesis using assms by (rule to_double_le_double)
  next
    case 2
    then show ?thesis using assms by (simp add: to_double_def)
  next
    case 3
    have "0 < to_double (- x)" using 3 by (intro to_double_pos) simp
    then show ?thesis using 3 by (simp add: to_double_minus)
  next
    case 4
    have "- d \<le> to_double (- x)"
      using 4 assms by (intro to_double_ge_double) (simp_all add: to_double_minus)
    then show ?thesis by (simp add: to_double_minus)
  qed
qed

lemma to_double_above:
  assumes "d \<le> x" and "to_double d = d"
  shows "d \<le> to_double x"
proof -
  have "to_double (- x) \<le> - d"
    using assms by (intro to_double_below) (simp_all add: to_double_minus)
  then show ?thesis by (simp add: to_double_minus)
qed

text \<open>Every integer of magnitude up to \<open>2 ^ 53\<close> is a double.\<close>

lemma to_double_two_53: "to_double (2 ^ 53) = 2 ^ 53"
  by code_simp

lemma is_double_of_nat_int:
  assumes "0 < i" and "i \<le> 2 ^ 53"
  shows "is_double (of_int i)"
proof (cases "i = 2 ^ 53")
  case True
  then show ?thesis using to_double_two_53 by (simp add: is_double_def)
next
  case False
  with assms have lt: "i < 2 ^ 53" by simp
  let ?x = "of_int i :: rat"
  have xpos: "0 < ?x" using assms(1) by simp
  have "(2::rat) powi ilog2 ?x \<le> ?x" using ilog2_bounds [OF xpos] by simp
  also have "?x < of_int (2 ^ 53)" using lt by (simp only: of_int_less_iff)
  also have "(of_int (2 ^ 53) :: rat) = 2 powi 53" by simp
  finally have "ilog2 ?x < 53" by (rule powi2_less_imp_less)
  then have "ilog2 ?x - 52 \<le> 0" by simp
  then obtain n where "(2::rat) powi 0 = of_int n * 2 powi (ilog2 ?x - 52)"
    using powi2_multiple by blast
  then have n: "?x = of_int (i * n) * 2 powi (ilog2 ?x - 52)" by simp
  have u: "(0::rat) < 2 powi (ilog2 ?x - 52)" by simp
  have "?x / 2 powi (ilog2 ?x - 52) = of_int (i * n)"
    by (subst n) (simp only: nonzero_mult_div_cancel_right less_imp_neq [OF u, symmetric] u
        order_less_irrefl not_False_eq_True)
  then have "to_double ?x = of_int (i * n) * 2 powi (ilog2 ?x - 52)"
    using to_double_pos_eq [OF xpos] by (simp only: round_half_even_of_int)
  then show ?thesis using n by (simp add: is_double_def)
qed

lemma is_double_of_int:
  assumes "\<bar>i\<bar> \<le> 2 ^ 53"
  shows "is_double (of_int i)"
proof -
  consider "0 < i" | "i = 0" | "i < 0" by linarith
  then show ?thesis
  proof cases
    case 1
    then show ?thesis using assms by (intro is_double_of_nat_int) simp_all
  next
    case 2
    then show ?thesis by (simp add: is_double_def to_double_def)
  next
    case 3
    then have "is_double (of_int (- i))" using assms by (intro is_double_of_nat_int) simp_all
    then show ?thesis by (simp add: is_double_def to_double_minus)
  qed
qed


lemma float_add_tie:
  "float_add (1000 + 1 / 2 ^ 43) 60 = 1060"
  "float_add (8796093022208001 / 8796093022208) 60 = 1060"
  unfolding float_add_def by code_simp+

lemma is_double_examples:
  "is_double 1000" "is_double 1059" "is_double 1060" "is_double 1061"
  "is_double (1000 + 1 / 2 ^ 43)"
  unfolding is_double_def by code_simp+

section \<open>Properties of session creation\<close>






text \<open>
  A record whose \<open>expires_at\<close> is at least \<open>2 ^ 53\<close> (an integer too large for a double
  among them) is fresh on every clock below that.
\<close>

lemma create_session_fresh_large:
  assumes "auth_file w = Some f" and "content f = Json (PDict auth)"
    and "map_of auth ''expires_at'' = Some (PNum expires_at)"
    and "now w + 60 \<le> 2 ^ 53" and "2 ^ 53 \<le> expires_at"
  shows "create_session w = (new_session (Some (PDict auth)), w)"
proof -
  have "float_add (now w) 60 \<le> 2 ^ 53"
    unfolding float_add_def using assms(4) to_double_two_53 by (intro to_double_below)
  then have "py_less (PNum expires_at) (float_add (now w) 60) = Inr False"
    using assms(5) by (simp add: py_less_def)
  then show ?thesis using assms by (simp add: create_session_def)
qed

text \<open>
  C3. With a stored record whose \<open>expires_at\<close> is more than 60 seconds ahead of the
  clock, \<open>create_session\<close> returns a session whose \<open>Authorization\<close> header is
  \<^verbatim>\<open>"Bearer %s"\<close> of the stored access token, and leaves the world as it found it: no
  request is sent. The 60 seconds are counted exactly. \<open>expires_at\<close> is a Python number:
  a double, as every float is and every integer up to \<open>2 ^ 53\<close> in magnitude
  (\<open>is_double_of_int\<close>), or a greater one while the clock is below \<open>2 ^ 53\<close> seconds.
\<close>

theorem create_session_fresh:
  assumes "auth_file w = Some f" and "content f = Json (PDict auth)"
    and "map_of auth ''expires_at'' = Some (PNum expires_at)"
    and "now w + 60 < expires_at"
    and "is_double expires_at \<or> (now w + 60 \<le> 2 ^ 53 \<and> 2 ^ 53 \<le> expires_at)"
    and "map_of auth ''access_token'' = Some token"
  shows "\<exists>s. create_session w = (Inr s, w) \<and>
             headers s ''Authorization'' = Some (PFormat ''Bearer %s'' [token])"
proof -
  have "create_session w = (new_session (Some (PDict auth)), w)"
    using assms(5)
  proof
    assume "is_double expires_at"
    then have "float_add (now w) 60 \<le> expires_at"
      unfolding float_add_def using assms(4)
      by (intro to_double_below) (simp_all add: is_double_def)
    then have "py_less (PNum expires_at) (float_add (now w) 60) = Inr False"
      by (simp add: py_less_def)
    then show ?thesis
      using assms(1-3) by (simp add: create_session_def)
  next
    assume "now w + 60 \<le> 2 ^ 53 \<and> 2 ^ 53 \<le> expires_at"
    then have "now w + 60 \<le> 2 ^ 53" and "2 ^ 53 \<le> expires_at" by blast+
    with assms(1-3) show ?thesis by (rule create_session_fresh_large)
  qed
  then show ?thesis
    using assms(6) by (simp add: new_session_def)
qed

theorem create_session_fresh_witness:
  "now (example_world\<lparr>auth_file := Some (stored_auth 1061)\<rparr>) + 60 < 1061 \<and>
   is_double 1061 \<and>
   (\<exists>s. create_session (example_world\<lparr>auth_file := Some (stored_auth 1061)\<rparr>) =
          (Inr s, example_world\<lparr>auth_file := Some (stored_auth 1061)\<rparr>) \<and>
        headers s ''Authorization'' = Some (PFormat ''Bearer %s'' [PStr ''a1'']))"
  using create_session_fresh [of "example_world\<lparr>auth_file := Some (stored_auth 1061)\<rparr>"
      "stored_auth 1061"
      "[(''refresh_token'', PStr ''r1''), (''access_token'', PStr ''a1''), (''expires_at'', PNum 1061)]"
      1061 "PStr ''a1''"]
  by (simp add: example_world_def stored_auth_def is_double_examples)

text \<open>
  When the rounded sum equals \<open>expires_at\<close> the stored token is used as it is, too.
\<close>

lemma create_session_at_boundary:
  assumes "auth_file w = Some f" and "content f = Json (PDict auth)"
    and "map_of auth ''expires_at'' = Some (PNum (float_add (now w) 60))"
  shows "create_session w = (new_session (Some (PDict auth)), w)"
  using assms by (simp add: create_session_def py_less_def)

text \<open>
  The code's test against the exact one: for a double \<open>expires_at\<close> that is exactly
  less than 60 seconds ahead, the test of the code holds unless the sum rounds to
  \<open>expires_at\<close> itself. It does at the clock \<open>1000 + 2 ^ -43\<close> with \<open>expires_at = 1060\<close>:
  the exact sum is above 1060, the float sum is 1060, and nothing is sent.
\<close>

lemma refresh_test_exact:
  assumes "is_double expires_at" and "expires_at < now w + 60"
    and "float_add (now w) 60 \<noteq> expires_at"
  shows "expires_at < float_add (now w) 60"
proof -
  have "expires_at \<le> float_add (now w) 60"
    unfolding float_add_def using assms(1,2) by (intro to_double_above) (simp_all add: is_double_def)
  with assms(3) show ?thesis by simp
qed

lemma create_session_rounded_sum:
  "(1060::rat) < now (example_world\<lparr>now := 1000 + 1 / 2 ^ 43, auth_file := Some (stored_auth 1060)\<rparr>) + 60 \<and>
   create_session (example_world\<lparr>now := 1000 + 1 / 2 ^ 43, auth_file := Some (stored_auth 1060)\<rparr>) =
     (new_session (Some (PDict [(''refresh_token'', PStr ''r1''), (''access_token'', PStr ''a1''),
                                (''expires_at'', PNum 1060)])),
      example_world\<lparr>now := 1000 + 1 / 2 ^ 43, auth_file := Some (stored_auth 1060)\<rparr>)"
  by (simp add: example_world_def stored_auth_def create_session_def py_less_def float_add_tie)

text \<open>
  C6. Without a credential file \<open>create_session\<close> does not fail and sends nothing; the
  session it returns has no \<open>Authorization\<close> header, and has the JSON \<open>Content-Type\<close>
  and \<open>Accept\<close> headers.
\<close>

theorem create_session_anonymous:
  assumes "auth_file w = None"
  shows "\<exists>s. create_session w = (Inr s, w) \<and>
             headers s ''Authorization'' = None \<and>
             headers s ''Content-Type'' = Some (PStr ''application/json'') \<and>
             headers s ''Accept'' = Some (PStr ''application/json'')"
  using assms by (simp add: create_session_def new_session_def default_headers_def)

theorem create_session_anonymous_witness:
  "auth_file example_world = None \<and>
   (\<exists>s. create_session example_world = (Inr s, example_world) \<and>
        headers s ''Authorization'' = None \<and>
        headers s ''Content-Type'' = Some (PStr ''application/json'') \<and>
        headers s ''Accept'' = Some (PStr ''application/json''))"
  using create_session_anonymous [of example_world]
  by (simp add: example_world_def)

section \<open>Properties of push and install\<close>

text \<open>
  C7. For a package identifier that parses and has no artifact in the local store,
  \<open>push\<close> raises the \<open>CommandException\<close> that says the package is not found, and the
  world is as it was: no request has been sent.
\<close>

theorem push_missing:
  assumes "parse_package package = Inr (owner, pkg)"
    and "\<not> store_exists (owner, pkg) w"
  shows "push s package w =
           (Inl (CommandException
              (PFormat ''Package {owner}/{pkg} not found.'' [PStr owner, PStr pkg])), w)"
  using assms by (simp add: push_def get_store_def)

theorem push_missing_witness:
  "parse_package ''acme/missing'' = Inr (''acme'', ''missing'') \<and>
   \<not> store_exists (''acme'', ''missing'') example_world \<and>
   push \<lparr>headers = Map.empty\<rparr> ''acme/missing'' example_world =
     (Inl (CommandException
        (PFormat ''Package {owner}/{pkg} not found.'' [PStr ''acme'', PStr ''missing''])),
      example_world)"
  using push_missing [of "''acme/missing''" "''acme''" "''missing''" example_world "\<lparr>headers = Map.empty\<rparr>"]
  by (simp add: parse_package_def store_exists_def artifact_def example_world_def)

lemma install_declined_world:
  assumes "parse_package package = Inr (owner, pkg)"
    and "store_exists (owner, pkg) w"
    and "stdin w = answer # rest"
    and "lower answer \<noteq> ''y''"
  shows "install s package w =
           (Inr (),
            w\<lparr>stdout := stdout w @
                 [PFormat ''{owner}/{pkg} already installed.'' [PStr owner, PStr pkg],
                  PStr ''Overwrite y/n? ''],
              stdin := rest\<rparr>)"
proof -
  have "store w owner \<noteq> None"
    using assms(2) by (auto simp: store_exists_def artifact_def split: option.splits)
  then have "get_store owner pkg True w = ((owner, pkg), w)"
    by (auto simp: get_store_def)
  then show ?thesis
    using assms by (simp add: install_def input_def print_def)
qed

text \<open>
  C10. When the package is already in the local store and the answer to the question,
  in lower case, is not \<open>y\<close>, \<open>install\<close> returns without an exception; it has sent no
  request, and the store and the credential file are as they were. (The terminal has
  the message and the question, and the answer is read.)
\<close>

theorem install_declined_frame:
  assumes "parse_package package = Inr (owner, pkg)"
    and "store_exists (owner, pkg) w"
    and "stdin w = answer # rest"
    and "lower answer \<noteq> ''y''"
  shows "fst (install s package w) = Inr () \<and>
         sent (snd (install s package w)) = sent w \<and>
         store (snd (install s package w)) = store w \<and>
         auth_file (snd (install s package w)) = auth_file w"
  by (simp add: install_declined_world [OF assms])

theorem install_declined_frame_witness:
  "parse_package ''acme/widget'' = Inr (''acme'', ''widget'') \<and>
   store_exists (''acme'', ''widget'') (example_world\<lparr>stdin := [''No'']\<rparr>) \<and>
   lower ''No'' = ''no'' \<and>
   fst (install \<lparr>headers = Map.empty\<rparr> ''acme/widget'' (example_world\<lparr>stdin := [''No'']\<rparr>)) = Inr () \<and>
   sent (snd (install \<lparr>headers = Map.empty\<rparr> ''acme/widget'' (example_world\<lparr>stdin := [''No'']\<rparr>))) = [] \<and>
   store (snd (install \<lparr>headers = Map.empty\<rparr> ''acme/widget'' (example_world\<lparr>stdin := [''No'']\<rparr>)))
     = store example_world"
  using install_declined_frame [of "''acme/widget''" "''acme''" "''widget''"
      "example_world\<lparr>stdin := [''No'']\<rparr>" "''No''" "[]" "\<lparr>headers = Map.empty\<rparr>"]
  by (simp add: parse_package_def store_exists_def artifact_def example_world_def lower_def
      lower_char_def)

section \<open>Properties of main\<close>

lemma main_success:
  assumes "need_session \<longrightarrow> create_session w = (Inr s, w1)"
    and "func (if need_session then Some s else None) (if need_session then w1 else w) = (Inr u, w2)"
  shows "main need_session func w = (Inr (Some 0), w2)"
  using assms by (auto simp: main_def)

lemma main_command_failure:
  assumes "need_session \<longrightarrow> create_session w = (Inr s, w1)"
    and "func (if need_session then Some s else None) (if need_session then w1 else w) =
           (Inl (CommandException ex), w2)"
  shows "fst (main need_session func w) = Inr (Some 1)"
  using assms by (auto simp: main_def)

lemma main_session_failure:
  assumes "create_session w = (Inl (CommandException ex), w1)"
  shows "fst (main True func w) = Inr (Some 1)"
  using assms by (auto simp: main_def)

lemma main_connection_failure:
  assumes "need_session \<longrightarrow> create_session w = (Inr s, w1)"
    and "func (if need_session then Some s else None) (if need_session then w1 else w) =
           (Inl (ConnectionError ex), w2)"
  shows "fst (main need_session func w) = Inr None"
  using assms by (auto simp: main_def)

text \<open>
  C8, at a registry that cannot be reached: \<open>quilt install acme/gadget\<close>, with no
  credential file and the package not installed. The first request raises
  \<^verbatim>\<open>ConnectionError\<close>; \<open>main\<close> catches it, prints, and returns \<^verbatim>\<open>None\<close>, not a
  non-zero code. (\<open>main_success\<close> and \<open>main_command_failure\<close> are the claim's other
  two parts, which hold.)
\<close>

theorem main_connection_error_returns_None:
  "fst (main True (with_session (\<lambda>s. install s ''acme/gadget'')) example_world) = Inr None"
  by (simp add: main_def with_session_def install_def parse_package_def get_store_def
      store_exists_def artifact_def example_world_def create_session_def new_session_def
      install_fetch_def session_request_def send_def)

section \<open>Properties of FileWithReadProgress\<close>

lemma run_call_need_to_close:
  "run_call c self = Inr (v, self') \<Longrightarrow> need_to_close self' = need_to_close self"
  by (cases c)
    (auto simp: read_def tell_def seek_def close_def Let_def split: sum.splits prod.splits if_splits)

lemma run_body_need_to_close:
  "run_body body self = (outcome, self') \<Longrightarrow> need_to_close self' = need_to_close self"
proof (induction body arbitrary: self)
  case Nil
  then show ?case by simp
next
  case (Cons c cs)
  show ?case
  proof (cases "run_call c self")
    case (Inl e)
    with Cons.prems show ?thesis by simp
  next
    case (Inr r)
    obtain v mid where r: "r = (v, mid)" by (cases r)
    with Inr Cons.prems have "run_body cs mid = (outcome, self')" by simp
    then have "need_to_close self' = need_to_close mid" by (rule Cons.IH)
    also have "\<dots> = need_to_close self"
      using Inr r by (simp add: run_call_need_to_close)
    finally show ?thesis .
  qed
qed

lemma init_path:
  "files path = Some bytes \<Longrightarrow>
   init files (Inl path) =
     Inr \<lparr>fd = \<lparr>fd_closed = False, fd_pos = 0, fd_bytes = bytes\<rparr>, need_to_close = True,
          progress = \<lparr>bar_total = length bytes, bar_count = 0, bar_closed = False\<rparr>\<rparr>"
  by (simp add: init_def fd_seek_def fd_tell_def)

lemma close_closes:
  "bar_closed (progress (close self)) \<and> (need_to_close self \<longrightarrow> fd_closed (fd (close self)))"
  by (simp add: close_def fd_close_def Let_def)

text \<open>
  C9. When \<open>FileWithReadProgress\<close> is given the path of a file and opens it, the
  \<^verbatim>\<open>with\<close> block is entered and, whatever its body does (method calls, an exception
  of a method, an exception of its own), the block ends with the underlying file closed
  and the progress bar closed.
\<close>

theorem with_block_closes:
  assumes "files path = Some bytes"
  shows "\<exists>outcome self'. with_block files (Inl path) body = Inr (outcome, self') \<and>
           fd_closed (fd self') \<and> bar_closed (progress self')"
proof -
  let ?self = "\<lparr>fd = \<lparr>fd_closed = False, fd_pos = 0, fd_bytes = bytes\<rparr>, need_to_close = True,
          progress = \<lparr>bar_total = length bytes, bar_count = 0, bar_closed = False\<rparr>\<rparr>"
  obtain outcome mid where b: "run_body body ?self = (outcome, mid)"
    by (cases "run_body body ?self")
  then have "need_to_close mid" using run_body_need_to_close [OF b] by simp
  then have "fd_closed (fd (close mid)) \<and> bar_closed (progress (close mid))"
    using close_closes [of mid] by simp
  moreover have "with_block files (Inl path) body = Inr (outcome, close mid)"
    using assms b by (simp add: with_block_def init_path)
  ultimately show ?thesis by blast
qed

theorem with_block_closes_witness:
  "(\<exists>outcome self'.
      with_block [''pkg.h5'' \<mapsto> ''0123456789''] (Inl ''pkg.h5'') [Read 4, Tell, Raise ValueError, Read 4]
        = Inr (outcome, self') \<and> fd_closed (fd self') \<and> bar_closed (progress self')) \<and>
   with_block [''pkg.h5'' \<mapsto> ''0123456789''] (Inl ''pkg.h5'') [Read 4, Tell, Raise ValueError, Read 4] =
     Inr (Some ValueError,
          \<lparr>fd = \<lparr>fd_closed = True, fd_pos = 4, fd_bytes = ''0123456789''\<rparr>, need_to_close = True,
           progress = \<lparr>bar_total = 10, bar_count = 4, bar_closed = True\<rparr>\<rparr>)"
  using with_block_closes [of "[''pkg.h5'' \<mapsto> ''0123456789'']" "''pkg.h5''" "''0123456789''"
      "[Read 4, Tell, Raise ValueError, Read 4]"]
  by (simp add: with_block_def init_path read_def tell_def fd_read_def fd_tell_def close_def
      fd_close_def)

end
